theory Spec2Isabelle
  imports Complex_Main "HOL-Library.Char_ord" "HOL-Library.List_Lexorder"
    "HOL-Library.Product_Lexorder" "HOL-Library.AList" "HOL-Library.Sublist"
begin

section \<open>Python values that the scripts handle\<close>

text \<open>
  The exceptions that the modelled code and the library calls it makes can raise.
  A raise is the left injection of a sum.
\<close>

datatype error = ValueError | KeyError | TypeError | IndexError | AttributeError | XLRDError

subsection \<open>Strings\<close>

text \<open>
  \<^verbatim>\<open>str.replace(old, new)\<close>: every non-overlapping occurrence of \<open>old\<close>, scanning from
  the left, is replaced by \<open>new\<close>. With an empty \<open>old\<close> Python puts \<open>new\<close> before every
  character and at the end.
\<close>

function str_replace :: "string \<Rightarrow> string \<Rightarrow> string \<Rightarrow> string" where
  "str_replace old new s =
     (if old = [] then new @ concat (map (\<lambda>c. c # new) s)
      else if s = [] then []
      else if prefix old s then new @ str_replace old new (drop (length old) s)
      else hd s # str_replace old new (tl s))"
  by pat_completeness auto
termination
  by (relation "measure (\<lambda>(old, new, s). length s)") auto

declare str_replace.simps [simp del]

text \<open>
  \<^verbatim>\<open>str.split(sep)\<close>: the pieces between the non-overlapping occurrences of \<open>sep\<close>,
  scanning from the left; \<open>cur\<close> is the piece being read. Python raises ValueError for
  an empty separator.
\<close>

function split_from :: "string \<Rightarrow> string \<Rightarrow> string \<Rightarrow> string list" where
  "split_from sep cur s =
     (if s = [] then [cur]
      else if sep \<noteq> [] \<and> prefix sep s then cur # split_from sep [] (drop (length sep) s)
      else split_from sep (cur @ [hd s]) (tl s))"
  by pat_completeness auto
termination
  by (relation "measure (\<lambda>(sep, cur, s). length s)") auto

declare split_from.simps [simp del]

definition str_split :: "string \<Rightarrow> string \<Rightarrow> error + string list" where
  "str_split s sep = (if sep = [] then Inl ValueError else Inr (split_from sep [] s))"

text \<open>\<^verbatim>\<open>sep.join(pieces)\<close>, used to state what a split is.\<close>

fun str_join :: "string \<Rightarrow> string list \<Rightarrow> string" where
  "str_join sep [] = []"
| "str_join sep [p] = p"
| "str_join sep (p # q # ps) = p @ sep @ str_join sep (q # ps)"

text \<open>\<^verbatim>\<open>os.path.basename\<close> (POSIX): what follows the last slash.\<close>

fun basename_from :: "string \<Rightarrow> string \<Rightarrow> string" where
  "basename_from cur [] = cur"
| "basename_from cur (c # cs) =
     (if c = CHR ''/'' then basename_from [] cs else basename_from (cur @ [c]) cs)"

definition basename :: "string \<Rightarrow> string" where
  "basename p = basename_from [] p"

subsection \<open>Lists\<close>

text \<open>\<^verbatim>\<open>list.index(x)\<close>: the first position of \<open>x\<close>, ValueError when it is absent.\<close>

fun list_index :: "'a list \<Rightarrow> 'a \<Rightarrow> error + nat" where
  "list_index [] x = Inl ValueError"
| "list_index (y # ys) x =
     (if y = x then Inr 0
      else (case list_index ys x of Inl e \<Rightarrow> Inl e | Inr i \<Rightarrow> Inr (Suc i)))"

text \<open>\<^verbatim>\<open>list.pop(i)\<close> for \<open>i \<ge> 0\<close>: the element and the list without it, IndexError out of range.\<close>

definition list_pop :: "'a list \<Rightarrow> nat \<Rightarrow> error + ('a \<times> 'a list)" where
  "list_pop xs i =
     (if i < length xs then Inr (xs ! i, take i xs @ drop (Suc i) xs) else Inl IndexError)"

text \<open>Running a fallible function over a list stops at the first raise.\<close>

fun collect :: "('a \<Rightarrow> error + 'b) \<Rightarrow> 'a list \<Rightarrow> error + 'b list" where
  "collect f [] = Inr []"
| "collect f (x # xs) =
     (case f x of
        Inl e \<Rightarrow> Inl e
      | Inr y \<Rightarrow> (case collect f xs of Inl e \<Rightarrow> Inl e | Inr ys \<Rightarrow> Inr (y # ys)))"

text \<open>Removing the element at a position.\<close>

definition remove_nth :: "nat \<Rightarrow> 'a list \<Rightarrow> 'a list" where
  "remove_nth p xs = take p xs @ drop (Suc p) xs"

text \<open>
  A Python dict built from pairs in order: a later pair with a key that is already there
  replaces the value and keeps the key's place.
\<close>

definition dict_of :: "('k \<times> 'v) list \<Rightarrow> ('k \<times> 'v) list" where
  "dict_of kvs = foldl (\<lambda>d (k, v). AList.update k v d) [] kvs"

text \<open>\<^verbatim>\<open>d[key]\<close> on a dict raises KeyError for a key that is absent.\<close>

definition dict_get :: "('k \<times> 'v) list \<Rightarrow> 'k \<Rightarrow> error + 'v" where
  "dict_get d k = (case map_of d k of None \<Rightarrow> Inl KeyError | Some v \<Rightarrow> Inr v)"

section \<open>Tables\<close>

subsection \<open>Cells\<close>

text \<open>
  What a cell of a sheet holds once parsed: a number, a string, or the marker of an empty
  cell. Numbers are real numbers with the two infinities that the sheets use for unbounded
  capacities; the rounding of double precision is not modelled.
\<close>

datatype cell = Num real | PInf | NInf | NaN | Str string

text \<open>
  The order of index values when an index is sorted: numbers by value, then strings
  character by character, then empty cells.
\<close>

fun cell_key :: "cell \<Rightarrow> nat \<times> real \<times> string" where
  "cell_key NInf = (0, 0, [])"
| "cell_key (Num x) = (1, x, [])"
| "cell_key PInf = (2, 0, [])"
| "cell_key (Str s) = (3, 0, s)"
| "cell_key NaN = (4, 0, [])"

text \<open>\<^verbatim>\<open>c >= 0\<close> and \<^verbatim>\<open>c > 0\<close>: an empty cell compares false, a string raises TypeError.\<close>

fun cell_ge0 :: "cell \<Rightarrow> error + bool" where
  "cell_ge0 (Num x) = Inr (0 \<le> x)"
| "cell_ge0 PInf = Inr True"
| "cell_ge0 NInf = Inr False"
| "cell_ge0 NaN = Inr False"
| "cell_ge0 (Str s) = Inl TypeError"

fun cell_gt0 :: "cell \<Rightarrow> error + bool" where
  "cell_gt0 (Num x) = Inr (0 < x)"
| "cell_gt0 PInf = Inr True"
| "cell_gt0 NInf = Inr False"
| "cell_gt0 NaN = Inr False"
| "cell_gt0 (Str s) = Inl TypeError"

text \<open>
  \<^verbatim>\<open>c * f\<close> for a float \<open>f\<close>: an empty cell stays empty, an infinity keeps or changes its
  sign or becomes empty with \<open>f = 0\<close>, a string raises TypeError.
\<close>

fun cell_times :: "cell \<Rightarrow> real \<Rightarrow> error + cell" where
  "cell_times (Num x) f = Inr (Num (x * f))"
| "cell_times PInf f = Inr (if 0 < f then PInf else if f < 0 then NInf else NaN)"
| "cell_times NInf f = Inr (if 0 < f then NInf else if f < 0 then PInf else NaN)"
| "cell_times NaN f = Inr NaN"
| "cell_times (Str s) f = Inl TypeError"

subsection \<open>Frames and series\<close>

text \<open>
  The column labels of a frame: plain labels, or the tuples of a MultiIndex, whose levels
  hold a string or the marker of a missing level. The labels of the sheets are strings.
\<close>

datatype colindex = Flat "string list" | Multi "cell list list"

text \<open>
  A DataFrame: the names of the index levels, the column labels, and the rows, each with
  its index tuple and its values in the order of the labels. A Series is a list of index
  tuples with one value each.
\<close>

record dataframe =
  index_names :: "string list"
  column_labels :: colindex
  rows :: "(cell list \<times> cell list) list"

type_synonym series = "(cell list \<times> cell) list"

text \<open>A value that a row does not have reads as an empty cell, as a short row of a sheet does.\<close>

definition cell_at :: "cell list \<Rightarrow> nat \<Rightarrow> cell" where
  "cell_at vs j = (if j < length vs then vs ! j else NaN)"

definition width :: "colindex \<Rightarrow> nat" where
  "width c = (case c of Flat ls \<Rightarrow> length ls | Multi ts \<Rightarrow> length ts)"

definition pad :: "nat \<Rightarrow> cell list \<Rightarrow> cell list" where
  "pad n vs = map (cell_at vs) [0..<n]"

text \<open>
  The position of a plain label. The tables whose columns the code reads have plain labels;
  the selection that pandas makes of a plain label among tuples is not modelled, and the
  label counts as absent there.
\<close>

definition col_pos :: "colindex \<Rightarrow> string \<Rightarrow> nat option" where
  "col_pos c name =
     (case c of
        Flat ls \<Rightarrow> (case list_index ls name of Inl e \<Rightarrow> None | Inr j \<Rightarrow> Some j)
      | Multi ts \<Rightarrow> None)"

text \<open>\<^verbatim>\<open>df[name]\<close>: the column as a Series, KeyError when there is no such label.\<close>

definition get_column :: "dataframe \<Rightarrow> string \<Rightarrow> error + series" where
  "get_column df name =
     (case col_pos (column_labels df) name of
        None \<Rightarrow> Inl KeyError
      | Some j \<Rightarrow> Inr (map (\<lambda>(k, vs). (k, cell_at vs j)) (rows df)))"

text \<open>
  \<^verbatim>\<open>df[name] = s\<close> for a Series \<open>s\<close> that has the index of the frame, so that the values go
  to the rows by position: the column is replaced, or is appended when the label is new.
\<close>

definition add_label :: "colindex \<Rightarrow> string \<Rightarrow> colindex" where
  "add_label c name = (case c of Flat ls \<Rightarrow> Flat (ls @ [name]) | Multi ts \<Rightarrow> Multi (ts @ [[Str name]]))"

definition set_column :: "dataframe \<Rightarrow> string \<Rightarrow> series \<Rightarrow> dataframe" where
  "set_column df name s =
     (let n = width (column_labels df);
          value = (\<lambda>i. cell_at (map snd s) i)
      in case col_pos (column_labels df) name of
           Some j \<Rightarrow>
             df\<lparr>rows := map (\<lambda>(i, (k, vs)). (k, (pad n vs)[j := value i]))
                            (zip [0..<length (rows df)] (rows df))\<rparr>
         | None \<Rightarrow>
             df\<lparr>column_labels := add_label (column_labels df) name,
                rows := map (\<lambda>(i, (k, vs)). (k, pad n vs @ [value i]))
                            (zip [0..<length (rows df)] (rows df))\<rparr>)"

text \<open>
  \<^verbatim>\<open>df.drop(name, axis=1)\<close>: a new frame without the columns of that label, KeyError when
  there is none.
\<close>

definition drop_column :: "dataframe \<Rightarrow> string \<Rightarrow> error + dataframe" where
  "drop_column df name =
     (case column_labels df of
        Multi ts \<Rightarrow> Inl KeyError
      | Flat ls \<Rightarrow>
          if name \<notin> set ls then Inl KeyError
          else (let keep = filter (\<lambda>j. ls ! j \<noteq> name) [0..<length ls]
                in Inr (df\<lparr>column_labels := Flat (map (\<lambda>j. ls ! j) keep),
                           rows := map (\<lambda>(k, vs). (k, map (cell_at vs) keep)) (rows df)\<rparr>)))"

text \<open>
  \<^verbatim>\<open>df.set_index(keys)\<close>: a new frame whose index is made of the columns \<open>keys\<close>, which leave
  the columns; KeyError when one of them is not a label.
\<close>

definition set_index :: "dataframe \<Rightarrow> string list \<Rightarrow> error + dataframe" where
  "set_index df keys =
     (case column_labels df of
        Multi ts \<Rightarrow> Inl KeyError
      | Flat ls \<Rightarrow>
          (case collect (\<lambda>k. list_index ls k) keys of
             Inl e \<Rightarrow> Inl KeyError
           | Inr key_pos \<Rightarrow>
               (let keep = filter (\<lambda>j. ls ! j \<notin> set keys) [0..<length ls]
                in Inr \<lparr>index_names = keys,
                        column_labels = Flat (map (\<lambda>j. ls ! j) keep),
                        rows = map (\<lambda>(k, vs). (map (cell_at vs) key_pos, map (cell_at vs) keep))
                                   (rows df)\<rparr>)))"

text \<open>
  An index of two levels or more is a MultiIndex. \<^verbatim>\<open>sort_index\<close> orders the rows by their
  index tuples, level by level, and keeps the order of rows with equal tuples.
\<close>

definition is_multi_index :: "dataframe \<Rightarrow> bool" where
  "is_multi_index df = (2 \<le> length (index_names df))"

definition row_key :: "cell list \<times> cell list \<Rightarrow> (nat \<times> real \<times> string) list" where
  "row_key r = map cell_key (fst r)"

definition sort_index :: "dataframe \<Rightarrow> dataframe" where
  "sort_index df = df\<lparr>rows := sort_key row_key (rows df)\<rparr>"

text \<open>
  \<^verbatim>\<open>df.xs(key, level=name)\<close>: the rows whose index has \<open>key\<close> at that level, without the
  level; KeyError when the index has no such level or no row has the key.
\<close>

definition xs_level :: "dataframe \<Rightarrow> cell \<Rightarrow> string \<Rightarrow> error + dataframe" where
  "xs_level df key level =
     (case list_index (index_names df) level of
        Inl e \<Rightarrow> Inl KeyError
      | Inr p \<Rightarrow>
          (let hits = filter (\<lambda>(k, vs). p < length k \<and> k ! p = key) (rows df)
           in if hits = [] then Inl KeyError
              else Inr (df\<lparr>index_names := remove_nth p (index_names df),
                           rows := map (\<lambda>(k, vs). (remove_nth p k, vs)) hits\<rparr>)))"

text \<open>\<^verbatim>\<open>s[s >= 0]\<close> and \<^verbatim>\<open>s[s > 0]\<close>: the mask is computed first, then the entries are kept.\<close>

definition series_where :: "(cell \<Rightarrow> error + bool) \<Rightarrow> series \<Rightarrow> error + series" where
  "series_where test s =
     (case collect (\<lambda>(k, v). test v) s of
        Inl e \<Rightarrow> Inl e
      | Inr keep \<Rightarrow> Inr (map fst (filter snd (zip s keep))))"

text \<open>
  \<^verbatim>\<open>to_dict()\<close>: for a frame a dict from each column label to the dict of that column by
  index tuple, for a series the dict by index tuple. A plain label is written as a tuple of
  one.
\<close>

definition labels_of :: "colindex \<Rightarrow> cell list list" where
  "labels_of c = (case c of Flat ls \<Rightarrow> map (\<lambda>l. [Str l]) ls | Multi ts \<Rightarrow> ts)"

definition frame_to_dict :: "dataframe \<Rightarrow> (cell list \<times> (cell list \<times> cell) list) list" where
  "frame_to_dict df =
     dict_of (map (\<lambda>(j, l). (l, dict_of (map (\<lambda>(k, vs). (k, cell_at vs j)) (rows df))))
                  (zip [0..<width (column_labels df)] (labels_of (column_labels df))))"

definition series_to_dict :: "series \<Rightarrow> (cell list \<times> cell) list" where
  "series_to_dict s = dict_of s"

section \<open>Objects and the store\<close>

text \<open>
  The values that an attribute of a model instance or an entry of a dict holds: a reference
  to a DataFrame in the store, a Series, a dict by name, the dict of a frame, the dict of a
  series, or a list of time steps. Frames are the objects that the code changes in place and
  shares between the data dict and the model instance, so they live in the store and are
  passed by reference; the other values are never changed after they are built.
\<close>

datatype pyval =
    FrameRef nat
  | SeriesV series
  | DictV "(string \<times> pyval) list"
  | TableDictV "(cell list \<times> (cell list \<times> cell) list) list"
  | SeriesDictV "(cell list \<times> cell) list"
  | IntListV "int list"

text \<open>
  A model instance: its attributes by name, and the attribute \<^verbatim>\<open>_data\<close>, the input data
  cache dict of an instance that was loaded, when it has one.
\<close>

record inst =
  attrs :: "(string \<times> pyval) list"
  data_cache :: "(string \<times> pyval) list option"

text \<open>
  The store: the frames and the instances, each at the address that is its position. The
  next free address is the length of the list. So that every address holds an object, as
  every Python reference does, an address that was never given out reads as an empty object.
\<close>

record heap =
  frames :: "dataframe list"
  insts :: "inst list"

definition empty_frame :: dataframe where
  "empty_frame = \<lparr>index_names = [], column_labels = Flat [], rows = []\<rparr>"

definition empty_inst :: inst where
  "empty_inst = \<lparr>attrs = [], data_cache = None\<rparr>"

definition frame_at :: "heap \<Rightarrow> nat \<Rightarrow> dataframe" where
  "frame_at h a = (if a < length (frames h) then frames h ! a else empty_frame)"

definition inst_at :: "heap \<Rightarrow> nat \<Rightarrow> inst" where
  "inst_at h m = (if m < length (insts h) then insts h ! m else empty_inst)"

definition put :: "'a \<Rightarrow> nat \<Rightarrow> 'a \<Rightarrow> 'a list \<Rightarrow> 'a list" where
  "put d a x xs =
     (if a < length xs then xs[a := x] else xs @ replicate (a - length xs) d @ [x])"

text \<open>
  A statement takes the store and gives a result, a value or the exception raised, and the
  store as it leaves it: what was changed before a raise stays changed.
\<close>

type_synonym 'a prog = "heap \<Rightarrow> (error + 'a) \<times> heap"

definition succeed :: "'a \<Rightarrow> 'a prog" where
  "succeed x h = (Inr x, h)"

definition raise :: "error \<Rightarrow> 'a prog" where
  "raise e h = (Inl e, h)"

definition lift :: "error + 'a \<Rightarrow> 'a prog" where
  "lift r h = (r, h)"

definition then_do :: "'a prog \<Rightarrow> ('a \<Rightarrow> 'b prog) \<Rightarrow> 'b prog" where
  "then_do f g h = (case f h of (Inl e, h') \<Rightarrow> (Inl e, h') | (Inr x, h') \<Rightarrow> g x h')"

definition new_frame :: "dataframe \<Rightarrow> nat prog" where
  "new_frame df h = (Inr (length (frames h)), h\<lparr>frames := frames h @ [df]\<rparr>)"

definition read_frame :: "nat \<Rightarrow> dataframe prog" where
  "read_frame a h = (Inr (frame_at h a), h)"

definition write_frame :: "nat \<Rightarrow> dataframe \<Rightarrow> unit prog" where
  "write_frame a df h = (Inr (), h\<lparr>frames := put empty_frame a df (frames h)\<rparr>)"

definition new_inst :: "inst \<Rightarrow> nat prog" where
  "new_inst i h = (Inr (length (insts h)), h\<lparr>insts := insts h @ [i]\<rparr>)"

definition read_inst :: "nat \<Rightarrow> inst prog" where
  "read_inst m h = (Inr (inst_at h m), h)"

text \<open>
  \<^verbatim>\<open>hasattr\<close> and \<^verbatim>\<open>getattr\<close>: the attribute \<^verbatim>\<open>_data\<close> is the cache, every other name is
  looked up among the attributes.
\<close>

definition attr_of :: "inst \<Rightarrow> string \<Rightarrow> pyval option" where
  "attr_of i name =
     (if name = ''_data'' then map_option DictV (data_cache i) else map_of (attrs i) name)"

text \<open>\<^verbatim>\<open>m.name = v\<close> for a name other than \<^verbatim>\<open>_data\<close>, which the code never assigns.\<close>

definition set_attr :: "nat \<Rightarrow> string \<Rightarrow> pyval \<Rightarrow> unit prog" where
  "set_attr m name v h =
     (Inr (), h\<lparr>insts := put empty_inst m
                       ((inst_at h m)\<lparr>attrs := AList.update name v (attrs (inst_at h m))\<rparr>) (insts h)\<rparr>)"

text \<open>\<^verbatim>\<open>m.name\<close>: AttributeError when the instance has no such attribute.\<close>

definition get_attr :: "nat \<Rightarrow> string \<Rightarrow> pyval prog" where
  "get_attr m name h =
     (case attr_of (inst_at h m) name of None \<Rightarrow> (Inl AttributeError, h) | Some v \<Rightarrow> (Inr v, h))"

text \<open>
  The frame or the series that an attribute holds. The code reads back only what it has
  stored; a value of another kind has no such method or column, which is an AttributeError.
\<close>

definition attr_frame :: "nat \<Rightarrow> string \<Rightarrow> (nat \<times> dataframe) prog" where
  "attr_frame m name =
     then_do (get_attr m name) (\<lambda>v.
       case v of
         FrameRef a \<Rightarrow> then_do (read_frame a) (\<lambda>df. succeed (a, df))
       | _ \<Rightarrow> raise AttributeError)"

definition attr_series :: "nat \<Rightarrow> string \<Rightarrow> series prog" where
  "attr_series m name =
     then_do (get_attr m name) (\<lambda>v.
       case v of
         SeriesV s \<Rightarrow> succeed s
       | _ \<Rightarrow> raise AttributeError)"


section \<open>MvsoModel/input.py\<close>

subsection \<open>split\_columns\<close>

text \<open>
  \<^verbatim>\<open>pd.MultiIndex.from_tuples\<close> on a list of tuples of strings: the index has as many levels
  as the longest tuple, the tuples stay in the order given, and a shorter tuple is filled up
  with the marker of a missing level.
\<close>

definition from_tuples :: "string list list \<Rightarrow> colindex" where
  "from_tuples tuples =
     (let n = foldr max (map length tuples) 0
      in Multi (map (\<lambda>t. map Str t @ replicate (n - length t) NaN) tuples))"

text \<open>
  The parameter \<open>sep\<close> is in the signature and the body splits at the literal \<^verbatim>\<open>'.'\<close>.
\<close>

definition split_columns :: "string list \<Rightarrow> string \<Rightarrow> error + colindex" where
  "split_columns columns sep =
     (if length columns = 0 then Inr (Flat columns)
      else (case collect (\<lambda>col. str_split col ''.'') columns of
              Inl e \<Rightarrow> Inl e
            | Inr column_tuples \<Rightarrow> Inr (from_tuples column_tuples)))"

subsection \<open>read\_excel\<close>

text \<open>
  A workbook gives, for each sheet that it has, the frame that \<^verbatim>\<open>xls.parse\<close> returns for it:
  the header cells as plain column labels and one row for each line of the sheet. A sheet
  that the workbook does not have raises XLRDError.
\<close>

type_synonym workbook = "(string \<times> dataframe) list"

definition parse :: "workbook \<Rightarrow> string \<Rightarrow> error + dataframe" where
  "parse xls sheet = (case map_of xls sheet of None \<Rightarrow> Inl XLRDError | Some df \<Rightarrow> Inr df)"

text \<open>\<^verbatim>\<open>xls.parse(sheet).set_index(keys)\<close>, a new frame.\<close>

definition parse_indexed :: "workbook \<Rightarrow> string \<Rightarrow> string list \<Rightarrow> nat prog" where
  "parse_indexed xls sheet keys =
     then_do (lift (parse xls sheet)) (\<lambda>df.
     then_do (lift (set_index df keys)) new_frame)"

text \<open>
  \<^verbatim>\<open>df.columns = split_columns(df.columns, '.')\<close>. The labels are plain when the frame comes
  from \<^verbatim>\<open>set_index\<close>; a tuple has no method \<^verbatim>\<open>split\<close>.
\<close>

definition assign_split_columns :: "nat \<Rightarrow> unit prog" where
  "assign_split_columns a =
     then_do (read_frame a) (\<lambda>df.
       case column_labels df of
         Flat ls \<Rightarrow>
           then_do (lift (split_columns ls ''.'')) (\<lambda>c. write_frame a (df\<lparr>column_labels := c\<rparr>))
       | Multi ts \<Rightarrow> if length ts = 0 then succeed () else raise AttributeError)"

text \<open>The loop over the keys of \<^verbatim>\<open>data\<close> that sorts the frames with a MultiIndex in place.\<close>

fun sort_indexes :: "(string \<times> nat) list \<Rightarrow> unit prog" where
  "sort_indexes [] = succeed ()"
| "sort_indexes ((key, a) # rest) =
     then_do (read_frame a) (\<lambda>df.
     then_do (if is_multi_index df then write_frame a (sort_index df) else succeed ()) (\<lambda>_.
     sort_indexes rest))"

definition read_excel :: "workbook \<Rightarrow> (string \<times> nat) list prog" where
  "read_excel xls =
     then_do (parse_indexed xls ''Site'' [''Name'']) (\<lambda>site.
     then_do (parse_indexed xls ''Commodity'' [''Site'', ''Commodity'', ''Type'']) (\<lambda>commodity.
     then_do (parse_indexed xls ''Process'' [''Site'', ''Process'']) (\<lambda>process.
     then_do (parse_indexed xls ''Process-Commodity'' [''Process'', ''Commodity'', ''Direction''])
       (\<lambda>process_commodity.
     then_do (parse_indexed xls ''Transmission'' [''Site In'', ''Site Out'', ''Transmission'', ''Commodity''])
       (\<lambda>transmission.
     then_do (parse_indexed xls ''Storage'' [''Site'', ''Storage'', ''Commodity'']) (\<lambda>storage.
     then_do (parse_indexed xls ''Demand'' [''t'']) (\<lambda>demand.
     then_do (parse_indexed xls ''SupIm'' [''t'']) (\<lambda>supim.
     then_do (parse_indexed xls ''Buy-Sell-Price'' [''t'']) (\<lambda>buy_sell_price.
     then_do (parse_indexed xls ''DSM'' [''Site'', ''Commodity'']) (\<lambda>dsm.
     then_do (parse_indexed xls ''Global'' [''Property'']) (\<lambda>global_prop.
     then_do (assign_split_columns demand) (\<lambda>_.
     then_do (assign_split_columns supim) (\<lambda>_.
     then_do (assign_split_columns buy_sell_price) (\<lambda>_.
     (let data = [(''global_prop'', global_prop),
                  (''site'', site),
                  (''commodity'', commodity),
                  (''process'', process),
                  (''process_commodity'', process_commodity),
                  (''transmission'', transmission),
                  (''storage'', storage),
                  (''demand'', demand),
                  (''supim'', supim),
                  (''buy_sell_price'', buy_sell_price),
                  (''dsm'', dsm)]
      in then_do (sort_indexes data) (\<lambda>_. succeed data))))))))))))))))"

subsection \<open>annuity\_factor\<close>

text \<open>
  Modelled from the spec: \<^verbatim>\<open>annuity_factor\<close>, which input.py imports from
  MvsoModel/modelhelper.py, a file that is not among the sources. The spec gives it as the
  coefficient that amortizes an investment over the depreciation period \<open>n\<close> at the discount
  rate \<open>i\<close>, \<open>(1+i)^n * i / ((1+i)^n - 1)\<close>. The code applies it to two columns of one frame,
  so the arithmetic goes row by row. Where the quotient is not a finite number (a base that
  is not positive, a denominator that is zero, an empty or infinite cell) the model gives
  the empty cell; a string cell raises TypeError.
\<close>

fun annuity_factor_cell :: "cell \<Rightarrow> cell \<Rightarrow> error + cell" where
  "annuity_factor_cell (Str s) i = Inl TypeError"
| "annuity_factor_cell n (Str s) = Inl TypeError"
| "annuity_factor_cell (Num n) (Num i) =
     (if 0 < 1 + i \<and> (1 + i) powr n \<noteq> 1
      then Inr (Num ((1 + i) powr n * i / ((1 + i) powr n - 1)))
      else Inr NaN)"
| "annuity_factor_cell n i = Inr NaN"

definition annuity_factor :: "series \<Rightarrow> series \<Rightarrow> error + series" where
  "annuity_factor n i =
     (case collect (\<lambda>((k, nv), (k', iv)). annuity_factor_cell nv iv) (zip n i) of
        Inl e \<Rightarrow> Inl e
      | Inr vs \<Rightarrow> Inr (zip (map fst n) vs))"

subsection \<open>pyomo\_model\_prep\<close>

text \<open>\<^verbatim>\<open>m.key = data[key]\<close>: the attribute holds the very frame of the data dict.\<close>

definition assign_table :: "nat \<Rightarrow> (string \<times> nat) list \<Rightarrow> string \<Rightarrow> unit prog" where
  "assign_table m data key =
     then_do (lift (dict_get data key)) (\<lambda>a. set_attr m key (FrameRef a))"

text \<open>\<^verbatim>\<open>m.target = m.source.to_dict()\<close> for a frame and for a series.\<close>

definition assign_frame_dict :: "nat \<Rightarrow> string \<Rightarrow> string \<Rightarrow> unit prog" where
  "assign_frame_dict m target source =
     then_do (attr_frame m source) (\<lambda>(a, df). set_attr m target (TableDictV (frame_to_dict df)))"

definition assign_series_dict :: "nat \<Rightarrow> string \<Rightarrow> string \<Rightarrow> unit prog" where
  "assign_series_dict m target source =
     then_do (attr_series m source) (\<lambda>s. set_attr m target (SeriesDictV (series_to_dict s)))"

text \<open>\<^verbatim>\<open>m.target = m.process_commodity.xs(key, level='Direction')['ratio']\<close>.\<close>

definition assign_ratio :: "nat \<Rightarrow> string \<Rightarrow> string \<Rightarrow> unit prog" where
  "assign_ratio m target key =
     then_do (attr_frame m ''process_commodity'') (\<lambda>(a, df).
     then_do (lift (xs_level df (Str key) ''Direction'')) (\<lambda>x.
     then_do (lift (get_column x ''ratio'')) (\<lambda>s.
     set_attr m target (SeriesV s))))"

text \<open>\<^verbatim>\<open>m.target = m.source[column]\<close> and \<^verbatim>\<open>m.target = m.target[m.target >= 0]\<close>.\<close>

definition assign_column :: "nat \<Rightarrow> string \<Rightarrow> string \<Rightarrow> string \<Rightarrow> unit prog" where
  "assign_column m target source column =
     then_do (attr_frame m source) (\<lambda>(a, df).
     then_do (lift (get_column df column)) (\<lambda>s.
     set_attr m target (SeriesV s)))"

definition assign_where :: "nat \<Rightarrow> string \<Rightarrow> (cell \<Rightarrow> error + bool) \<Rightarrow> unit prog" where
  "assign_where m target test =
     then_do (attr_series m target) (\<lambda>s.
     then_do (lift (series_where test s)) (\<lambda>s'.
     set_attr m target (SeriesV s')))"

text \<open>
  The three statements that build \<^verbatim>\<open>m.r_in_min_fraction\<close> and \<^verbatim>\<open>m.r_out_min_fraction\<close>:
  the cross-section is a new frame that the attribute holds until the next statement.
\<close>

definition assign_min_fraction :: "nat \<Rightarrow> string \<Rightarrow> string \<Rightarrow> unit prog" where
  "assign_min_fraction m target key =
     then_do (attr_frame m ''process_commodity'') (\<lambda>(a, df).
     then_do (lift (xs_level df (Str key) ''Direction'')) (\<lambda>x.
     then_do (new_frame x) (\<lambda>b.
     then_do (set_attr m target (FrameRef b)) (\<lambda>_.
     then_do (assign_column m target target ''ratio-min'') (\<lambda>_.
     assign_where m target cell_gt0)))))"

text \<open>
  \<^verbatim>\<open>m.table['annuity-factor'] = annuity_factor(m.table['depreciation'], m.table['wacc'])\<close>:
  the frame that the attribute refers to is changed in place.
\<close>

definition assign_annuity :: "nat \<Rightarrow> string \<Rightarrow> unit prog" where
  "assign_annuity m table =
     then_do (attr_frame m table) (\<lambda>(a, df).
     then_do (lift (get_column df ''depreciation'')) (\<lambda>n.
     then_do (lift (get_column df ''wacc'')) (\<lambda>i.
     then_do (lift (annuity_factor n i)) (\<lambda>s.
     then_do (attr_frame m table) (\<lambda>(a', df').
     write_frame a' (set_column df' ''annuity-factor'' s))))))"

text \<open>The statements of \<^verbatim>\<open>pyomo_model_prep\<close>, in the groups that its comments make.\<close>

definition prep_tables :: "nat \<Rightarrow> (string \<times> nat) list \<Rightarrow> int list \<Rightarrow> unit prog" where
  "prep_tables m data timesteps =
     then_do (lift (dict_get data ''global_prop'')) (\<lambda>gp.
     then_do (read_frame gp) (\<lambda>df.
     then_do (lift (drop_column df ''description'')) (\<lambda>dropped.
     then_do (new_frame dropped) (\<lambda>a.
     then_do (set_attr m ''global_prop'' (FrameRef a)) (\<lambda>_.
     then_do (assign_table m data ''site'') (\<lambda>_.
     then_do (assign_table m data ''commodity'') (\<lambda>_.
     then_do (assign_table m data ''process'') (\<lambda>_.
     then_do (assign_table m data ''process_commodity'') (\<lambda>_.
     then_do (assign_table m data ''transmission'') (\<lambda>_.
     then_do (assign_table m data ''storage'') (\<lambda>_.
     then_do (assign_table m data ''demand'') (\<lambda>_.
     then_do (assign_table m data ''supim'') (\<lambda>_.
     then_do (assign_table m data ''buy_sell_price'') (\<lambda>_.
     then_do (set_attr m ''timesteps'' (IntListV timesteps)) (\<lambda>_.
     assign_table m data ''dsm'')))))))))))))))"

definition prep_dicts :: "nat \<Rightarrow> unit prog" where
  "prep_dicts m =
     then_do (assign_frame_dict m ''commodity_dict'' ''commodity'') (\<lambda>_.
     then_do (assign_frame_dict m ''demand_dict'' ''demand'') (\<lambda>_.
     then_do (assign_frame_dict m ''supim_dict'' ''supim'') (\<lambda>_.
     then_do (assign_frame_dict m ''dsm_dict'' ''dsm'') (\<lambda>_.
     assign_frame_dict m ''buy_sell_price_dict'' ''buy_sell_price''))))"

definition prep_ratios :: "nat \<Rightarrow> unit prog" where
  "prep_ratios m =
     then_do (assign_ratio m ''r_in'' ''In'') (\<lambda>_.
     then_do (assign_ratio m ''r_out'' ''Out'') (\<lambda>_.
     then_do (assign_series_dict m ''r_in_dict'' ''r_in'') (\<lambda>_.
     assign_series_dict m ''r_out_dict'' ''r_out'')))"

definition prep_areas :: "nat \<Rightarrow> unit prog" where
  "prep_areas m =
     then_do (assign_column m ''proc_area'' ''process'' ''area-per-cap'') (\<lambda>_.
     then_do (assign_column m ''sit_area'' ''site'' ''area'') (\<lambda>_.
     then_do (assign_where m ''proc_area'' cell_ge0) (\<lambda>_.
     assign_where m ''sit_area'' cell_ge0)))"

definition prep_min_fractions :: "nat \<Rightarrow> unit prog" where
  "prep_min_fractions m =
     then_do (assign_min_fraction m ''r_in_min_fraction'' ''In'') (\<lambda>_.
     assign_min_fraction m ''r_out_min_fraction'' ''Out'')"

definition prep_annuity :: "nat \<Rightarrow> unit prog" where
  "prep_annuity m =
     then_do (assign_annuity m ''process'') (\<lambda>_.
     then_do (assign_annuity m ''transmission'') (\<lambda>_.
     assign_annuity m ''storage''))"

definition prep_final_dicts :: "nat \<Rightarrow> unit prog" where
  "prep_final_dicts m =
     then_do (assign_frame_dict m ''process_dict'' ''process'') (\<lambda>_.
     then_do (assign_frame_dict m ''transmission_dict'' ''transmission'') (\<lambda>_.
     assign_frame_dict m ''storage_dict'' ''storage''))"

text \<open>
  \<^verbatim>\<open>pyomo_model_prep(data, timesteps)\<close>. The instance that \<^verbatim>\<open>pyomo.ConcreteModel()\<close> gives
  comes from a library, so it is the parameter \<open>concrete_model\<close>.
\<close>

definition pyomo_model_prep :: "inst \<Rightarrow> (string \<times> nat) list \<Rightarrow> int list \<Rightarrow> nat prog" where
  "pyomo_model_prep concrete_model data timesteps =
     then_do (new_inst concrete_model) (\<lambda>m.
     then_do (prep_tables m data timesteps) (\<lambda>_.
     then_do (prep_dicts m) (\<lambda>_.
     then_do (prep_ratios m) (\<lambda>_.
     then_do (prep_areas m) (\<lambda>_.
     then_do (prep_min_fractions m) (\<lambda>_.
     then_do (prep_annuity m) (\<lambda>_.
     then_do (prep_final_dicts m) (\<lambda>_.
     succeed m))))))))"



text \<open>
  Between two stores, for an instance \<open>m\<close> and a set \<open>S\<close> of names: the frames that were
  there are as they were, frames may have been added, and the attributes of \<open>m\<close> outside
  \<open>S\<close> are as they were.
\<close>

definition sets_only :: "nat \<Rightarrow> string set \<Rightarrow> heap \<Rightarrow> heap \<Rightarrow> bool" where
  "sets_only m S h h' \<longleftrightarrow>
     (\<exists>fs. frames h' = frames h @ fs) \<and>
     (\<forall>k. k \<notin> S \<longrightarrow> attr_of (inst_at h' m) k = attr_of (inst_at h m) k)"



subsection \<open>get\_input\<close>

text \<open>
  The instance has the attribute \<^verbatim>\<open>_data\<close> when it has a cache, and \<^verbatim>\<open>name in prob._data\<close>
  asks for a key of that dict.
\<close>

definition get_input :: "nat \<Rightarrow> string \<Rightarrow> pyval prog" where
  "get_input prob name =
     then_do (read_inst prob) (\<lambda>i.
       case attr_of i name of
         Some v \<Rightarrow> succeed v
       | None \<Rightarrow>
           (case data_cache i of
              None \<Rightarrow> raise ValueError
            | Some d \<Rightarrow>
                if name \<in> fst ` set d then lift (dict_get d name) else raise ValueError))"

section \<open>runme.py\<close>

definition scenario_base :: "(string \<times> nat) list \<Rightarrow> (string \<times> nat) list prog" where
  "scenario_base data = succeed data"

text \<open>
  \<^verbatim>\<open>pro.loc[key, column] *= f\<close>: the entries of the column in the rows whose index starts
  with the tuple \<open>key\<close> are read, multiplied and written back. KeyError when the frame has
  no such column or no such row; TypeError, before anything is written, when one of the
  entries is a string.
\<close>

definition loc_times :: "nat \<Rightarrow> cell list \<Rightarrow> string \<Rightarrow> real \<Rightarrow> unit prog" where
  "loc_times a key column f =
     then_do (read_frame a) (\<lambda>df.
       case col_pos (column_labels df) column of
         None \<Rightarrow> raise KeyError
       | Some j \<Rightarrow>
           if \<not> (\<exists>(k, vs) \<in> set (rows df). prefix key k) then raise KeyError
           else
             then_do (lift (collect (\<lambda>(k, vs).
                        if prefix key k
                        then (case cell_times (cell_at vs j) f of
                                Inl e \<Rightarrow> Inl e
                              | Inr v \<Rightarrow> Inr (k, (pad (width (column_labels df)) vs)[j := v]))
                        else Inr (k, vs)) (rows df))) (\<lambda>rows'.
             write_frame a (df\<lparr>rows := rows'\<rparr>)))"

definition scenario_Node_2_process_caps :: "(string \<times> nat) list \<Rightarrow> (string \<times> nat) list prog" where
  "scenario_Node_2_process_caps data =
     then_do (lift (dict_get data ''process'')) (\<lambda>pro.
     then_do (loc_times pro [Str ''Node_2'', Str ''Gas plant''] ''cap-up'' (1 / 2)) (\<lambda>_.
     then_do (loc_times pro [Str ''Node_2'', Str ''Biomass plant''] ''cap-up'' (1 / 4)) (\<lambda>_.
     succeed data)))"

section \<open>An example workbook\<close>

text \<open>
  The frame that \<^verbatim>\<open>xls.parse\<close> gives for a sheet with a header line and body lines: the rows
  are numbered.
\<close>

definition sheet :: "string list \<Rightarrow> cell list list \<Rightarrow> dataframe" where
  "sheet header body =
     \<lparr>index_names = [], column_labels = Flat header,
      rows = map (\<lambda>(j, vs). ([Num (real j)], vs)) (zip [0..<length body] body)\<rparr>"

text \<open>A small workbook with the eleven sheets, and a fresh model instance.\<close>

definition empty_heap :: heap where
  "empty_heap = \<lparr>frames = [], insts = []\<rparr>"

definition example_workbook :: workbook where
  "example_workbook =
    [(''Site'', sheet [''Name'', ''area''] []),
     (''Commodity'', sheet [''Site'', ''Commodity'', ''Type''] []),
     (''Process'', sheet [''Site'', ''Process'', ''area-per-cap'', ''wacc'', ''depreciation'']
        [[Str ''b'', Str ''q'', Num 1, Num 1, Num 1],
         [Str ''a'', Str ''p'', NaN, Num 1, Num 2]]),
     (''Process-Commodity'', sheet [''Process'', ''Commodity'', ''Direction'', ''ratio'', ''ratio-min'']
        [[Str ''p'', Str ''c'', Str ''In'', Num 1, NaN],
         [Str ''p'', Str ''c'', Str ''Out'', Num 1, Num 1]]),
     (''Transmission'',
        sheet [''Site In'', ''Site Out'', ''Transmission'', ''Commodity'', ''wacc'', ''depreciation''] []),
     (''Storage'', sheet [''Site'', ''Storage'', ''Commodity'', ''wacc'', ''depreciation''] []),
     (''Demand'', sheet [''t'', ''a.c''] [[Num 1, Num 5]]),
     (''SupIm'', sheet [''t''] []),
     (''Buy-Sell-Price'', sheet [''t''] []),
     (''DSM'', sheet [''Site'', ''Commodity''] []),
     (''Global'', sheet [''Property'', ''value'', ''description''] [[Str ''x'', Num 1, Str ''d'']])]"


definition example_data :: "(string \<times> nat) list" where
  "example_data =
     [(''global_prop'', 10), (''site'', 0), (''commodity'', 1), (''process'', 2),
      (''process_commodity'', 3), (''transmission'', 4), (''storage'', 5), (''demand'', 6),
      (''supim'', 7), (''buy_sell_price'', 8), (''dsm'', 9)]"

text \<open>
  The store that \<^verbatim>\<open>read_excel\<close> gives for the example workbook.
\<close>

definition example_store :: heap where
  "example_store =
    \<lparr>frames =
    [\<lparr>index_names = [''Name''], column_labels = Flat [''area''],
    rows = []\<rparr>,
    \<lparr>index_names = [''Site'', ''Commodity'', ''Type''],
    column_labels = Flat [], rows = []\<rparr>,
    \<lparr>index_names = [''Site'', ''Process''],
    column_labels =
    Flat [''area-per-cap'', ''wacc'', ''depreciation''],
    rows =
    [([Str ''a'', Str ''p''], [NaN, Num 1, Num 2]),
    ([Str ''b'', Str ''q''], [Num 1, Num 1, Num 1])]\<rparr>,
    \<lparr>index_names = [''Process'', ''Commodity'', ''Direction''],
    column_labels = Flat [''ratio'', ''ratio-min''],
    rows =
    [([Str ''p'', Str ''c'', Str ''In''], [Num 1, NaN]),
    ([Str ''p'', Str ''c'', Str ''Out''], [Num 1, Num 1])]\<rparr>,
    \<lparr>index_names =
    [''Site In'', ''Site Out'', ''Transmission'', ''Commodity''],
    column_labels = Flat [''wacc'', ''depreciation''], rows = []\<rparr>,
    \<lparr>index_names = [''Site'', ''Storage'', ''Commodity''],
    column_labels = Flat [''wacc'', ''depreciation''], rows = []\<rparr>,
    \<lparr>index_names = [''t''], column_labels = Multi [[Str ''a'', Str ''c'']],
    rows = [([Num 1], [Num 5])]\<rparr>,
    \<lparr>index_names = [''t''], column_labels = Flat [], rows = []\<rparr>,
    \<lparr>index_names = [''t''], column_labels = Flat [], rows = []\<rparr>,
    \<lparr>index_names = [''Site'', ''Commodity''], column_labels = Flat [],
    rows = []\<rparr>,
    \<lparr>index_names = [''Property''],
    column_labels = Flat [''value'', ''description''],
    rows = [([Str ''x''], [Num 1, Str ''d''])]\<rparr>],
    insts = []\<rparr>"


text \<open>
  A store with one instance that has an attribute \<^verbatim>\<open>process\<close> and a cache with the key
  \<^verbatim>\<open>site\<close>.
\<close>

definition example_loaded :: heap where
  "example_loaded =
     \<lparr>frames = [],
      insts = [\<lparr>attrs = [(''process'', FrameRef 0)], data_cache = Some [(''site'', FrameRef 1)]\<rparr>]\<rparr>"

section \<open>comp.py\<close>

subsection \<open>deduplicate\_legend\<close>

text \<open>
  The loop over \<^verbatim>\<open>zip(handles, labels)\<close>: a pair is appended when its label is not yet in
  \<^verbatim>\<open>new_labels\<close>.
\<close>

fun dedup_loop :: "('h \<times> string) list \<Rightarrow> 'h list \<Rightarrow> string list \<Rightarrow> 'h list \<times> string list" where
  "dedup_loop [] new_handles new_labels = (new_handles, new_labels)"
| "dedup_loop ((hdl, lbl) # rest) new_handles new_labels =
     (if lbl \<notin> set new_labels
      then dedup_loop rest (new_handles @ [hdl]) (new_labels @ [lbl])
      else dedup_loop rest new_handles new_labels)"

text \<open>
  \<^verbatim>\<open>a, b = (list(t) for t in zip(*pairs))\<close>: the transposition of a list of pairs gives two
  tuples when the list is not empty and none when it is, and unpacking none into two names
  raises ValueError.
\<close>

definition unzip_two :: "('a \<times> 'b) list \<Rightarrow> error + ('a list \<times> 'b list)" where
  "unzip_two ps = (if ps = [] then Inl ValueError else Inr (map fst ps, map snd ps))"

text \<open>
  \<^verbatim>\<open>sorted(zip(new_labels, new_handles))\<close> compares tuples: by label, and by handle only
  between equal labels. The labels that reach it are distinct, so the order is the order of
  the labels (strings compare character by character); the sort is stable, as Python's is.
\<close>

definition deduplicate_legend :: "'h list \<Rightarrow> string list \<Rightarrow> error + ('h list \<times> string list)" where
  "deduplicate_legend handles labels =
     (case dedup_loop (zip handles labels) [] [] of
        (new_handles, new_labels) \<Rightarrow>
          (case unzip_two (sort_key fst (zip new_labels new_handles)) of
             Inl e \<Rightarrow> Inl e
           | Inr (sorted_labels, sorted_handles) \<Rightarrow> Inr (sorted_handles, sorted_labels)))"

subsection \<open>compare\_scenarios: names and the place of the base scenario\<close>

definition scenario_name :: "string \<Rightarrow> string" where
  "scenario_name rf =
     str_replace ''scenario '' ''''
       (str_replace ''.xlsx'' '''' (str_replace ''_'' '' '' (basename rf)))"

definition scenario_names :: "string list \<Rightarrow> string list" where
  "scenario_names result_files = map scenario_name result_files"

text \<open>
  The \<^verbatim>\<open>try\<close> block: \<^verbatim>\<open>index\<close>, then \<^verbatim>\<open>pop\<close> and \<^verbatim>\<open>append\<close> on each list. Only a
  ValueError is caught; the lists are returned as the block leaves them.
\<close>

definition move_base :: "string list \<Rightarrow> string list \<Rightarrow> error + (string list \<times> string list)" where
  "move_base result_files names =
     (case list_index names ''base'' of
        Inl e \<Rightarrow> (if e = ValueError then Inr (result_files, names) else Inl e)
      | Inr base_scenario \<Rightarrow>
          (case list_pop result_files base_scenario of
             Inl e \<Rightarrow> (if e = ValueError then Inr (result_files, names) else Inl e)
           | Inr (rf, files') \<Rightarrow>
               (case list_pop names base_scenario of
                  Inl e \<Rightarrow> (if e = ValueError then Inr (files' @ [rf], names) else Inl e)
                | Inr (nm, names') \<Rightarrow> Inr (files' @ [rf], names' @ [nm]))))"

definition compare_scenarios_order :: "string list \<Rightarrow> error + (string list \<times> string list)" where
  "compare_scenarios_order result_files = move_base result_files (scenario_names result_files)"

text \<open>The handle that stands first with a given label in a list of (handle, label) pairs.\<close>

definition first_of :: "('h \<times> string) list \<Rightarrow> string \<Rightarrow> 'h option" where
  "first_of ps l = map_of (map (\<lambda>(h, l). (l, h)) ps) l"

section \<open>Properties of the list and string helpers\<close>

lemma list_index_Inr:
  "list_index xs x = Inr i \<Longrightarrow> i < length xs \<and> xs ! i = x \<and> (\<forall>j<i. xs ! j \<noteq> x)"
proof (induction xs arbitrary: i)
  case Nil
  then show ?case by simp
next
  case (Cons y ys)
  show ?case
  proof (cases "y = x")
    case True
    with Cons.prems show ?thesis by simp
  next
    case False
    with Cons.prems obtain k where k: "list_index ys x = Inr k" "i = Suc k"
      by (auto split: sum.splits)
    from Cons.IH[OF k(1)] False k(2) show ?thesis
      by (auto simp: nth_Cons split: nat.splits)
  qed
qed

lemma list_index_Inl: "list_index xs x = Inl e \<Longrightarrow> e = ValueError \<and> x \<notin> set xs"
  by (induction xs) (auto split: if_splits sum.splits)

lemma list_index_mem: "x \<in> set xs \<Longrightarrow> \<exists>i. list_index xs x = Inr i"
  by (cases "list_index xs x") (auto dest: list_index_Inl)

lemma collect_Inr_map: "(\<And>x. x \<in> set xs \<Longrightarrow> f x = Inr (g x)) \<Longrightarrow> collect f xs = Inr (map g xs)"
  by (induction xs) simp_all

lemma split_from_not_Nil: "split_from sep cur s \<noteq> []"
proof (induction sep cur s rule: split_from.induct)
  case (1 sep cur s)
  then show ?case by (simp add: split_from.simps[of sep cur s])
qed

lemma join_split_from:
  "sep \<noteq> [] \<Longrightarrow> str_join sep (split_from sep cur s) = cur @ s"
proof (induction sep cur s rule: split_from.induct)
  case (1 sep cur s)
  show ?case
  proof (cases "s = []")
    case True
    then show ?thesis by (simp add: split_from.simps[of sep cur "[]"])
  next
    case False
    note ne = this
    show ?thesis
    proof (cases "prefix sep s")
      case True
      then have s: "s = sep @ drop (length sep) s"
        by (metis append_eq_conv_conj prefix_def)
      from "1.IH"(1)[OF ne _ "1.prems"] True "1.prems"
      have ih: "str_join sep (split_from sep [] (drop (length sep) s)) = drop (length sep) s"
        by simp
      obtain p ps where ps: "split_from sep [] (drop (length sep) s) = p # ps"
        using split_from_not_Nil[of sep "[]" "drop (length sep) s"]
        by (cases "split_from sep [] (drop (length sep) s)") simp_all
      have "split_from sep cur s = cur # p # ps"
        using ne True "1.prems" ps by (simp add: split_from.simps[of sep cur s])
      then have "str_join sep (split_from sep cur s) = cur @ sep @ str_join sep (p # ps)" by simp
      also have "\<dots> = cur @ sep @ drop (length sep) s" using ih ps by simp
      finally show ?thesis using s by simp
    next
      case False
      from "1.IH"(2)[OF ne _ "1.prems"] False
      have "str_join sep (split_from sep (cur @ [hd s]) (tl s)) = (cur @ [hd s]) @ tl s" by simp
      with ne False show ?thesis by (simp add: split_from.simps[of sep cur s])
    qed
  qed
qed


section \<open>Statements, the store and the frames\<close>




lemma raise_Inr: "raise e h = (Inr y, h') \<longleftrightarrow> False"
  by (simp add: raise_def)


lemma read_inst_Inr: "read_inst m h = (Inr i, h') \<longleftrightarrow> i = inst_at h m \<and> h' = h"
  by (auto simp: read_inst_def)

lemma nth_put: "b < length (put d a x xs) \<Longrightarrow> put d a x xs ! b =
    (if b = a then x else if b < length xs then xs ! b else d)"
  by (auto simp: put_def nth_append nth_list_update)

lemma length_put: "length (put d a x xs) = max (length xs) (Suc a)"
  by (auto simp: put_def)


lemma inst_at_frames_update [simp]: "inst_at (h\<lparr>frames := fs\<rparr>) m = inst_at h m"
  by (simp add: inst_at_def)

lemma frame_at_insts_update [simp]: "frame_at (h\<lparr>insts := is\<rparr>) a = frame_at h a"
  by (simp add: frame_at_def)

lemma inst_at_write:
  "inst_at (h\<lparr>insts := put empty_inst m i (insts h)\<rparr>) m' = (if m' = m then i else inst_at h m')"
  by (auto simp: inst_at_def nth_put length_put)

lemma frame_at_new:
  "frame_at (h\<lparr>frames := frames h @ [df]\<rparr>) b = (if b = length (frames h) then df else frame_at h b)"
  by (auto simp: frame_at_def nth_append)

lemma inst_at_new:
  "inst_at (h\<lparr>insts := insts h @ [i]\<rparr>) b = (if b = length (insts h) then i else inst_at h b)"
  by (auto simp: inst_at_def nth_append)

lemma attr_of_update:
  "attr_of (i\<lparr>attrs := AList.update n v (attrs i)\<rparr>) k =
     (if k = n \<and> k \<noteq> ''_data'' then Some v else attr_of i k)"
  by (simp add: attr_of_def update_conv')




lemma collect_Inl_iff: "(\<exists>e. collect f xs = Inl e) \<longleftrightarrow> (\<exists>x\<in>set xs. \<exists>e. f x = Inl e)"
  by (induction xs) (auto split: sum.splits)






lemma length_pad [simp]: "length (pad n vs) = n"
  by (simp add: pad_def)




lemma map_zip_upt:
  "map (\<lambda>(i, x). g i x) (zip [0..<length xs] xs) = map (\<lambda>i. g i (xs ! i)) [0..<length xs]"
  by (rule nth_equalityI) auto











lemma get_attr_Inr: "get_attr m name h = (Inr v, h') \<longleftrightarrow> attr_of (inst_at h m) name = Some v \<and> h' = h"
  by (auto simp: get_attr_def split: option.splits)





section \<open>Properties of comp.py\<close>

lemma first_of_Cons:
  "first_of ((h, l) # ps) l' = (if l = l' then Some h else first_of ps l')"
  by (simp add: first_of_def)

lemma dedup_loop_inv:
  "dedup_loop ps nh nl = (nh', nl') \<Longrightarrow> length nh = length nl \<Longrightarrow> distinct nl \<Longrightarrow>
     length nh' = length nl' \<and> distinct nl' \<and> set nl' = set nl \<union> snd ` set ps \<and>
     (\<forall>l h. (l, h) \<in> set (zip nl' nh') \<longrightarrow>
        (l, h) \<in> set (zip nl nh) \<or> (l \<notin> set nl \<and> first_of ps l = Some h))"
proof (induction ps nh nl rule: dedup_loop.induct)
  case (1 new_handles new_labels)
  then show ?case by simp
next
  case (2 hdl lbl rest new_handles new_labels)
  show ?case
  proof (cases "lbl \<in> set new_labels")
    case True
    then have nn: "\<not> lbl \<notin> set new_labels" by simp
    from True "2.prems"(1) have d: "dedup_loop rest new_handles new_labels = (nh', nl')" by simp
    note ih0 = "2.IH"(2)[OF nn d "2.prems"(2) "2.prems"(3)]
    have "(l, h) \<in> set (zip new_labels new_handles) \<or>
          (l \<notin> set new_labels \<and> first_of ((hdl, lbl) # rest) l = Some h)"
      if "(l, h) \<in> set (zip nl' nh')" for l h
    proof -
      have "(l, h) \<in> set (zip new_labels new_handles) \<or>
          (l \<notin> set new_labels \<and> first_of rest l = Some h)"
        by (rule ih0[THEN conjunct2, THEN conjunct2, THEN conjunct2, rule_format, OF that])
      then show ?thesis using True by (auto simp: first_of_Cons)
    qed
    moreover have "set nl' = set new_labels \<union> snd ` set ((hdl, lbl) # rest)"
      using ih0 True by auto
    ultimately show ?thesis
      using ih0[THEN conjunct1] ih0[THEN conjunct2, THEN conjunct1] by simp
  next
    case False
    from False "2.prems"(1)
    have d: "dedup_loop rest (new_handles @ [hdl]) (new_labels @ [lbl]) = (nh', nl')" by simp
    have l: "length (new_handles @ [hdl]) = length (new_labels @ [lbl])"
      using "2.prems"(2) by simp
    have ds: "distinct (new_labels @ [lbl])" using "2.prems"(3) False by simp
    note ih0 = "2.IH"(1)[OF False d l ds]
    have z: "set (zip (new_labels @ [lbl]) (new_handles @ [hdl])) =
        insert (lbl, hdl) (set (zip new_labels new_handles))"
      using "2.prems"(2) by simp
    have "(l, h) \<in> set (zip new_labels new_handles) \<or>
          (l \<notin> set new_labels \<and> first_of ((hdl, lbl) # rest) l = Some h)"
      if "(l, h) \<in> set (zip nl' nh')" for l h
    proof -
      have "(l, h) \<in> set (zip (new_labels @ [lbl]) (new_handles @ [hdl])) \<or>
          (l \<notin> set (new_labels @ [lbl]) \<and> first_of rest l = Some h)"
        by (rule ih0[THEN conjunct2, THEN conjunct2, THEN conjunct2, rule_format, OF that])
      then have "(l, h) = (lbl, hdl) \<or> (l, h) \<in> set (zip new_labels new_handles) \<or>
          (l \<noteq> lbl \<and> l \<notin> set new_labels \<and> first_of rest l = Some h)"
        unfolding z by simp
      then show ?thesis using False by (auto simp: first_of_Cons)
    qed
    moreover have "set nl' = set new_labels \<union> snd ` set ((hdl, lbl) # rest)"
      using ih0 by auto
    ultimately show ?thesis
      using ih0[THEN conjunct1] ih0[THEN conjunct2, THEN conjunct1] by simp
  qed
qed

lemma first_of_index:
  "length handles = length labels \<Longrightarrow> first_of (zip handles labels) l = Some h \<Longrightarrow>
   \<exists>i<length handles. list_index labels l = Inr i \<and> handles ! i = h"
proof (induction handles labels rule: list_induct2)
  case Nil
  then show ?case by (simp add: first_of_def)
next
  case (Cons x xs y ys)
  show ?case
  proof (cases "y = l")
    case True
    with Cons show ?thesis by (auto simp: first_of_def)
  next
    case False
    with Cons obtain i where "i < length xs" "list_index ys l = Inr i" "xs ! i = h"
      by (auto simp: first_of_def)
    with False show ?thesis by (intro exI[of _ "Suc i"]) auto
  qed
qed

text \<open>
  Claim C9. For handles and labels of equal length, not empty, \<^verbatim>\<open>deduplicate_legend\<close> returns
  two lists of equal length; no label occurs twice in the labels returned, they are in
  ascending order, they are the labels of the input, and the handle at each position is the
  handle that stood at the first position of that label in the input. For two empty lists it
  raises ValueError.
\<close>

theorem deduplicate_legend_sorted_first:
  "deduplicate_legend ([] :: 'h list) [] = Inl ValueError \<and>
   (handles \<noteq> [] \<and> length handles = length labels \<longrightarrow>
     (\<exists>nh nl. deduplicate_legend (handles :: 'h list) labels = Inr (nh, nl) \<and>
        length nh = length nl \<and> distinct nl \<and> sorted nl \<and> set nl = set labels \<and>
        (\<forall>j<length nl. \<exists>i<length handles.
            list_index labels (nl ! j) = Inr i \<and> nh ! j = handles ! i)))"
proof (intro conjI impI)
  show "deduplicate_legend ([] :: 'h list) [] = Inl ValueError"
    by (simp add: deduplicate_legend_def unzip_two_def)
next
  assume a: "handles \<noteq> [] \<and> length handles = length labels"
  obtain nh0 nl0 where d: "dedup_loop (zip handles labels) [] [] = (nh0, nl0)"
    by (cases "dedup_loop (zip handles labels) [] []") auto
  have sl: "snd ` set (zip handles labels) = set labels"
    using a by (metis map_snd_zip set_map)
  from dedup_loop_inv[OF d] a sl have inv: "length nh0 = length nl0" "distinct nl0"
    "set nl0 = set labels"
    "\<And>l h. (l, h) \<in> set (zip nl0 nh0) \<Longrightarrow> first_of (zip handles labels) l = Some h"
    by auto
  define srt where "srt = sort_key fst (zip nl0 nh0)"
  have "labels \<noteq> []" using a by auto
  then have "nl0 \<noteq> []" using inv(3) by auto
  then have "zip nl0 nh0 \<noteq> []" using inv(1) by (cases nl0; cases nh0) simp_all
  then have "length srt \<noteq> 0" unfolding srt_def length_sort by simp
  then have ne: "srt \<noteq> []" by simp
  have res: "deduplicate_legend handles labels = Inr (map snd srt, map fst srt)"
    using d ne by (simp add: deduplicate_legend_def unzip_two_def srt_def)
  have s1: "sorted (map fst srt)" by (simp add: srt_def)
  have s2: "set srt = set (zip nl0 nh0)" by (simp add: srt_def)
  have m: "map fst (zip nl0 nh0) = nl0" using inv(1) by simp
  have "distinct (map fst (sort_key fst xs)) = distinct (map fst xs)" for xs :: "(string \<times> 'h) list"
    by (induction xs) (simp_all add: distinct_insort_key)
  then have "distinct (map fst srt)" unfolding srt_def using inv(2) m by simp
  moreover have "set (map fst srt) = set labels"
    using s2 m inv(3) by (metis set_map)
  ultimately have s4: "distinct (map fst srt)" "set (map fst srt) = set labels" by blast+
  have s5: "\<exists>i<length handles. list_index labels (map fst srt ! j) = Inr i \<and> map snd srt ! j = handles ! i"
    if "j < length (map fst srt)" for j
  proof -
    from that have "srt ! j \<in> set srt" by simp
    then have "(fst (srt ! j), snd (srt ! j)) \<in> set (zip nl0 nh0)" using s2 by simp
    then have "first_of (zip handles labels) (fst (srt ! j)) = Some (snd (srt ! j))" by (rule inv(4))
    from first_of_index[OF _ this] a that show ?thesis by auto
  qed
  show "\<exists>nh nl. deduplicate_legend handles labels = Inr (nh, nl) \<and>
        length nh = length nl \<and> distinct nl \<and> sorted nl \<and> set nl = set labels \<and>
        (\<forall>j<length nl. \<exists>i<length handles.
            list_index labels (nl ! j) = Inr i \<and> nh ! j = handles ! i)"
    using res s1 s4 s5 by (intro exI[of _ "map snd srt"] exI[of _ "map fst srt"]) simp
qed

theorem deduplicate_legend_sorted_first_witness:
  "deduplicate_legend [1::nat, 2, 3] [''b'', ''a'', ''b''] = Inr ([2, 1], [''a'', ''b'']) \<and>
   (\<exists>nh nl. deduplicate_legend [1::nat, 2, 3] [''b'', ''a'', ''b''] = Inr (nh, nl) \<and>
      length nh = length nl \<and> distinct nl \<and> sorted nl \<and> set nl = set [''b'', ''a'', ''b''] \<and>
      (\<forall>j<length nl. \<exists>i<length [1::nat, 2, 3].
          list_index [''b'', ''a'', ''b''] (nl ! j) = Inr i \<and> nh ! j = [1::nat, 2, 3] ! i))"
proof
  show "deduplicate_legend [1::nat, 2, 3] [''b'', ''a'', ''b''] = Inr ([2, 1], [''a'', ''b''])"
    by code_simp
next
  have h: "[1::nat, 2, 3] \<noteq> [] \<and> length [1::nat, 2, 3] = length [''b'', ''a'', ''b'']"
    by simp
  from deduplicate_legend_sorted_first[of "[1::nat, 2, 3]" "[''b'', ''a'', ''b'']"]
  have "[1::nat, 2, 3] \<noteq> [] \<and> length [1::nat, 2, 3] = length [''b'', ''a'', ''b''] \<longrightarrow>
      (\<exists>nh nl. deduplicate_legend [1::nat, 2, 3] [''b'', ''a'', ''b''] = Inr (nh, nl) \<and>
      length nh = length nl \<and> distinct nl \<and> sorted nl \<and> set nl = set [''b'', ''a'', ''b''] \<and>
      (\<forall>j<length nl. \<exists>i<length [1::nat, 2, 3].
          list_index [''b'', ''a'', ''b''] (nl ! j) = Inr i \<and> nh ! j = [1::nat, 2, 3] ! i))"
    by (rule conjunct2)
  from this h show "\<exists>nh nl. deduplicate_legend [1::nat, 2, 3] [''b'', ''a'', ''b''] = Inr (nh, nl) \<and>
      length nh = length nl \<and> distinct nl \<and> sorted nl \<and> set nl = set [''b'', ''a'', ''b''] \<and>
      (\<forall>j<length nl. \<exists>i<length [1::nat, 2, 3].
          list_index [''b'', ''a'', ''b''] (nl ! j) = Inr i \<and> nh ! j = [1::nat, 2, 3] ! i)"
    by (rule mp)
qed

text \<open>
  Claim C10. In \<^verbatim>\<open>compare_scenarios\<close>, when one of the derived scenario names is \<^verbatim>\<open>'base'\<close>,
  the first such name and its result file are moved to the last position of their lists,
  the rest keeping its order; when none is, both lists keep their order. In both cases the
  step returns: no exception escapes it.
\<close>

theorem compare_scenarios_base_last:
  "(''base'' \<in> set (scenario_names result_files) \<longrightarrow>
      (\<exists>i<length result_files.
          scenario_names result_files ! i = ''base'' \<and>
          (\<forall>j<i. scenario_names result_files ! j \<noteq> ''base'') \<and>
          compare_scenarios_order result_files =
            Inr (take i result_files @ drop (Suc i) result_files @ [result_files ! i],
                 take i (scenario_names result_files) @
                 drop (Suc i) (scenario_names result_files) @ [''base'']))) \<and>
   (''base'' \<notin> set (scenario_names result_files) \<longrightarrow>
      compare_scenarios_order result_files = Inr (result_files, scenario_names result_files))"
proof (intro conjI impI)
  assume "''base'' \<in> set (scenario_names result_files)"
  from list_index_mem[OF this]
  obtain i where i: "list_index (scenario_names result_files) ''base'' = Inr i" ..
  note p = list_index_Inr[OF i]
  have len: "length (scenario_names result_files) = length result_files"
    by (simp add: scenario_names_def)
  have "compare_scenarios_order result_files =
            Inr (take i result_files @ drop (Suc i) result_files @ [result_files ! i],
                 take i (scenario_names result_files) @
                 drop (Suc i) (scenario_names result_files) @ [''base''])"
    using i p len by (simp add: compare_scenarios_order_def move_base_def list_pop_def)
  with p len show "\<exists>i<length result_files.
          scenario_names result_files ! i = ''base'' \<and>
          (\<forall>j<i. scenario_names result_files ! j \<noteq> ''base'') \<and>
          compare_scenarios_order result_files =
            Inr (take i result_files @ drop (Suc i) result_files @ [result_files ! i],
                 take i (scenario_names result_files) @
                 drop (Suc i) (scenario_names result_files) @ [''base''])"
    by (intro exI[of _ i]) simp
next
  assume a: "''base'' \<notin> set (scenario_names result_files)"
  have "list_index (scenario_names result_files) ''base'' = Inl ValueError"
  proof (cases "list_index (scenario_names result_files) ''base''")
    case (Inl e)
    from list_index_Inl[OF this] this show ?thesis by simp
  next
    case (Inr k)
    from list_index_Inr[OF this] have k: "k < length (scenario_names result_files)"
      "scenario_names result_files ! k = ''base''" by simp_all
    from nth_mem[OF k(1)] k(2) a show ?thesis by simp
  qed
  then show "compare_scenarios_order result_files = Inr (result_files, scenario_names result_files)"
    by (simp add: compare_scenarios_order_def move_base_def)
qed

theorem compare_scenarios_base_last_witness:
  "''base'' \<in> set (scenario_names [''result/scenario_base.xlsx'', ''result/scenario_all_together.xlsx'']) \<and>
   (\<exists>i<length [''result/scenario_base.xlsx'', ''result/scenario_all_together.xlsx''].
      scenario_names [''result/scenario_base.xlsx'', ''result/scenario_all_together.xlsx''] ! i = ''base'' \<and>
      (\<forall>j<i. scenario_names [''result/scenario_base.xlsx'', ''result/scenario_all_together.xlsx''] ! j
          \<noteq> ''base'') \<and>
      compare_scenarios_order [''result/scenario_base.xlsx'', ''result/scenario_all_together.xlsx''] =
        Inr (take i [''result/scenario_base.xlsx'', ''result/scenario_all_together.xlsx''] @
             drop (Suc i) [''result/scenario_base.xlsx'', ''result/scenario_all_together.xlsx''] @
             [[''result/scenario_base.xlsx'', ''result/scenario_all_together.xlsx''] ! i],
             take i (scenario_names [''result/scenario_base.xlsx'', ''result/scenario_all_together.xlsx'']) @
             drop (Suc i) (scenario_names [''result/scenario_base.xlsx'', ''result/scenario_all_together.xlsx'']) @
             [''base''])) \<and>
   ''base'' \<notin> set (scenario_names [''result/scenario_all_together.xlsx'']) \<and>
   compare_scenarios_order [''result/scenario_all_together.xlsx'']
     = Inr ([''result/scenario_all_together.xlsx''], scenario_names [''result/scenario_all_together.xlsx''])"
proof -
  have n1: "scenario_names [''result/scenario_base.xlsx'', ''result/scenario_all_together.xlsx'']
      = [''base'', ''all together'']"
    by code_simp
  have n2: "scenario_names [''result/scenario_all_together.xlsx''] = [''all together'']"
    by code_simp
  have m1: "''base'' \<in> set (scenario_names [''result/scenario_base.xlsx'', ''result/scenario_all_together.xlsx''])"
    unfolding n1 by simp
  have m2: "''base'' \<notin> set (scenario_names [''result/scenario_all_together.xlsx''])"
    unfolding n2 by simp
  note t1 = compare_scenarios_base_last
    [of "[''result/scenario_base.xlsx'', ''result/scenario_all_together.xlsx'']", THEN conjunct1, THEN mp, OF m1]
  note t2 = compare_scenarios_base_last
    [of "[''result/scenario_all_together.xlsx'']", THEN conjunct2, THEN mp, OF m2]
  show ?thesis
    by (intro conjI m1 t1 m2 t2)
qed

text \<open>The same two runs, evaluated.\<close>

lemma compare_scenarios_order_runs:
  "compare_scenarios_order [''result/scenario_base.xlsx'', ''result/scenario_all_together.xlsx'']
     = Inr ([''result/scenario_all_together.xlsx'', ''result/scenario_base.xlsx''],
            [''all together'', ''base''])"
  "compare_scenarios_order [''result/scenario_all_together.xlsx'']
     = Inr ([''result/scenario_all_together.xlsx''], [''all together''])"
  by code_simp+

section \<open>Properties of MvsoModel/input.py\<close>

subsection \<open>What the statements of pyomo\_model\_prep change\<close>

lemma sets_only_refl: "sets_only m S h h"
  by (simp add: sets_only_def)























lemma snd_set_attr_obs:
  "frames (snd (set_attr m n v h)) = frames h"
  "attr_of (inst_at (snd (set_attr m n v h)) m) k =
     (if k = n \<and> k \<noteq> ''_data'' then Some v else attr_of (inst_at h m) k)"
  "m' \<noteq> m \<Longrightarrow> inst_at (snd (set_attr m n v h)) m' = inst_at h m'"
  "data_cache (inst_at (snd (set_attr m n v h)) m) = data_cache (inst_at h m)"
  by (auto simp: set_attr_def inst_at_write attr_of_update)

lemma frame_at_snd_set_attr: "frame_at (snd (set_attr m n v h)) a = frame_at h a"
  by (simp add: frame_at_def snd_set_attr_obs)
























subsection \<open>split\_columns\<close>

text \<open>
  Claim C8. \<^verbatim>\<open>split_columns\<close> ignores its parameter \<open>sep\<close>: with any separator it gives what it
  gives with \<^verbatim>\<open>'.'\<close>, which for labels that are not empty is the MultiIndex of the labels
  split at the literal \<^verbatim>\<open>'.'\<close>.
\<close>

theorem split_columns_ignores_sep:
  "split_columns columns sep = split_columns columns ''.'' \<and>
   split_columns columns sep =
     (if columns = [] then Inr (Flat [])
      else Inr (from_tuples (map (split_from ''.'' []) columns)))"
proof -
  have "collect (\<lambda>col. str_split col ''.'') columns = Inr (map (split_from ''.'' []) columns)"
    by (rule collect_Inr_map) (simp add: str_split_def)
  then show ?thesis by (simp add: split_columns_def)
qed

theorem split_columns_ignores_sep_witness:
  "split_columns [''DE-Elec.x'', ''MA-Elec.y''] ''-'' =
     Inr (Multi [[Str ''DE-Elec'', Str ''x''], [Str ''MA-Elec'', Str ''y'']]) \<and>
   split_columns [''DE-Elec.x'', ''MA''] ''-'' =
     Inr (Multi [[Str ''DE-Elec'', Str ''x''], [Str ''MA'', NaN]])"
proof -
  have a: "split_columns [''DE-Elec.x'', ''MA-Elec.y''] ''.'' =
     Inr (Multi [[Str ''DE-Elec'', Str ''x''], [Str ''MA-Elec'', Str ''y'']])"
    by (simp add: split_columns_def str_split_def from_tuples_def split_from.simps)
  have b: "split_columns [''DE-Elec.x'', ''MA''] ''.'' =
     Inr (Multi [[Str ''DE-Elec'', Str ''x''], [Str ''MA'', NaN]])"
    by (simp add: split_columns_def str_split_def from_tuples_def split_from.simps)
  from split_columns_ignores_sep[of "[''DE-Elec.x'', ''MA-Elec.y'']" "''-''"]
    split_columns_ignores_sep[of "[''DE-Elec.x'', ''MA'']" "''-''"] a b
  show ?thesis by (simp only:)
qed

subsection \<open>get\_input\<close>

lemma dict_get_member:
  "(if name \<in> fst ` set d then lift (dict_get d name) else raise ValueError) h =
     (case map_of d name of None \<Rightarrow> (Inl ValueError, h) | Some v \<Rightarrow> (Inr v, h))"
proof (cases "map_of d name")
  case None
  then have "name \<notin> fst ` set d" by (simp add: map_of_eq_None_iff)
  with None show ?thesis by (simp add: raise_def)
next
  case (Some v)
  then have "name \<in> fst ` set d" by (metis map_of_eq_None_iff option.distinct(1))
  with Some show ?thesis by (simp add: lift_def dict_get_def)
qed

lemma get_input_eq:
  "get_input prob name h =
     (case attr_of (inst_at h prob) name of
        Some v \<Rightarrow> (Inr v, h)
      | None \<Rightarrow>
          (case data_cache (inst_at h prob) of
             None \<Rightarrow> (Inl ValueError, h)
           | Some d \<Rightarrow> (case map_of d name of None \<Rightarrow> (Inl ValueError, h) | Some v \<Rightarrow> (Inr v, h))))"
  by (simp add: get_input_def then_do_def read_inst_def succeed_def raise_def dict_get_member
      split: option.splits)

text \<open>
  Claim C3. \<^verbatim>\<open>get_input(prob, name)\<close> returns the attribute \<open>name\<close> of the instance when it has
  one; otherwise the entry of the cache \<^verbatim>\<open>_data\<close> under \<open>name\<close> when the instance has a cache
  with that key; it raises exactly when neither lookup succeeds, and then it raises ValueError;
  the store, and with it the instance, is left as it was in every case.
\<close>

theorem get_input_lookup:
  "(attr_of (inst_at h prob) name = Some v \<longrightarrow> get_input prob name h = (Inr v, h)) \<and>
   (attr_of (inst_at h prob) name = None \<and> data_cache (inst_at h prob) = Some d \<and>
      map_of d name = Some v \<longrightarrow> get_input prob name h = (Inr v, h)) \<and>
   ((\<exists>e. fst (get_input prob name h) = Inl e) \<longleftrightarrow>
      attr_of (inst_at h prob) name = None \<and>
      (\<forall>d. data_cache (inst_at h prob) = Some d \<longrightarrow> map_of d name = None)) \<and>
   (\<forall>e. fst (get_input prob name h) = Inl e \<longrightarrow> e = ValueError) \<and>
   snd (get_input prob name h) = h"
  unfolding get_input_eq by (auto split: option.splits)

theorem get_input_lookup_witness:
  "attr_of (inst_at example_loaded 0) ''process'' = Some (FrameRef 0) \<and>
   get_input 0 ''process'' example_loaded = (Inr (FrameRef 0), example_loaded) \<and>
   attr_of (inst_at example_loaded 0) ''site'' = None \<and>
   data_cache (inst_at example_loaded 0) = Some [(''site'', FrameRef 1)] \<and>
   get_input 0 ''site'' example_loaded = (Inr (FrameRef 1), example_loaded) \<and>
   attr_of (inst_at example_loaded 0) ''dsm'' = None \<and>
   (\<exists>e. fst (get_input 0 ''dsm'' example_loaded) = Inl e)"
proof -
  have a1: "attr_of (inst_at example_loaded 0) ''process'' = Some (FrameRef 0)"
    by (simp add: example_loaded_def inst_at_def attr_of_def)
  have a2: "attr_of (inst_at example_loaded 0) ''site'' = None"
    by (simp add: example_loaded_def inst_at_def attr_of_def)
  have a3: "data_cache (inst_at example_loaded 0) = Some [(''site'', FrameRef 1)]"
    by (simp add: example_loaded_def inst_at_def)
  have a4: "map_of [(''site'', FrameRef 1)] ''site'' = Some (FrameRef 1)"
    by simp
  have a5: "attr_of (inst_at example_loaded 0) ''dsm'' = None"
    by (simp add: example_loaded_def inst_at_def attr_of_def)
  have a6: "\<forall>d. data_cache (inst_at example_loaded 0) = Some d \<longrightarrow> map_of d ''dsm'' = None"
    by (simp add: a3)
  note t = get_input_lookup[where h = example_loaded and prob = 0]
  have r1: "get_input 0 ''process'' example_loaded = (Inr (FrameRef 0), example_loaded)"
    by (rule t[where name = "''process''" and v = "FrameRef 0", THEN conjunct1, THEN mp, OF a1])
  have r2: "get_input 0 ''site'' example_loaded = (Inr (FrameRef 1), example_loaded)"
    by (rule t[where name = "''site''" and v = "FrameRef 1" and d = "[(''site'', FrameRef 1)]",
          THEN conjunct2, THEN conjunct1, THEN mp, OF conjI[OF a2 conjI[OF a3 a4]]])
  have r3: "\<exists>e. fst (get_input 0 ''dsm'' example_loaded) = Inl e"
    by (rule t[where name = "''dsm''", THEN conjunct2, THEN conjunct2, THEN conjunct1, THEN iffD2,
          OF conjI[OF a5 a6]])
  show ?thesis by (intro conjI a1 r1 a2 a3 r2 a5 r3)
qed

section \<open>Properties of runme.py\<close>

text \<open>
  Claim C6. \<^verbatim>\<open>scenario_base\<close> returns the data dict that it was given, the same references
  in the same order, and leaves the store, so every table, as it was.
\<close>

theorem scenario_base_identity: "scenario_base data h = (Inr data, h)"
  by (simp add: scenario_base_def succeed_def)

section \<open>The example workbook, run\<close>

text \<open>
  A program on a given store is run statement by statement: each statement is evaluated on
  the store that the one before has left.
\<close>

lemma run_then_do:
  "f h = (Inr x, h1) \<Longrightarrow> g x h1 = (Inr y, h2) \<Longrightarrow> then_do f g h = (Inr y, h2)"
  by (simp add: then_do_def)

lemma then_do_assoc: "then_do (then_do f g) k = then_do f (\<lambda>x. then_do (g x) k)"
  by (rule ext) (simp add: then_do_def split: prod.splits sum.splits)

lemmas step_simps = then_do_assoc prod.case sum.case pyval.case option.case colindex.case
  if_True if_False Let_def sort_indexes.simps

lemmas pure_defs = lift_def read_frame_def write_frame_def new_frame_def new_inst_def read_inst_def
  set_attr_def get_attr_def succeed_def raise_def attr_of_def frame_at_def inst_at_def put_def
  cell_at_def empty_frame_def empty_inst_def
  parse_def set_index_def split_columns_def from_tuples_def str_split_def split_from.simps
  is_multi_index_def sort_index_def row_key_def
  dict_get_def dict_of_def drop_column_def get_column_def set_column_def col_pos_def width_def
  pad_def add_label_def xs_level_def remove_nth_def series_where_def labels_of_def
  frame_to_dict_def series_to_dict_def annuity_factor_def

lemmas prog_defs = read_excel_def parse_indexed_def assign_split_columns_def
  pyomo_model_prep_def prep_tables_def prep_dicts_def prep_ratios_def prep_areas_def
  prep_min_fractions_def prep_annuity_def prep_final_dicts_def assign_table_def assign_frame_dict_def
  assign_series_dict_def assign_ratio_def assign_column_def assign_where_def assign_min_fraction_def
  assign_annuity_def attr_frame_def attr_series_def

lemma example_read:
  "read_excel example_workbook empty_heap = (Inr example_data, example_store)"
  unfolding prog_defs
  apply ((simp add: step_simps is_multi_index_def)?, rule run_then_do,
         (simp add: pure_defs example_workbook_def sheet_def empty_heap_def; fail))+
  apply (simp add: pure_defs example_data_def example_store_def)
  done


section \<open>The annuity factor\<close>




end
